theory Spec2Isabelle
  imports Main "HOL-Library.Sublist"
begin

section \<open>samsung-cli: a shallow embedding of \<open>src/samsung-cli.cpp\<close>\<close>

text \<open>
  The tool reads and writes one-line text attributes. Every file-system call of the
  source is a primitive of the model: it reads its answer from the \<open>world\<close> record and
  appends an event to the world's \<open>trace\<close>, so that "this call was never made" is a
  statement about the trace. Text sent to \<open>std::cout\<close> and \<open>std::cerr\<close> is appended to
  \<open>printed\<close>, one entry per output statement. Paths and arguments are C strings
  (no NUL character inside), so a \<open>std::string\<close> and its \<open>c_str()\<close> are the same
  \<open>string\<close>.
\<close>

subsection \<open>The standard library: \<open>std::stoi\<close>, \<open>std::to_string\<close>, \<open>std::string::find\<close>, \<open>strncmp\<close>\<close>

text \<open>
  \<open>std::stoi(str)\<close> calls \<open>strtol(str, &end, 10)\<close>: leading white space (the six
  characters of \<open>isspace\<close> in the C locale) is skipped, one optional sign is read, then
  the longest run of decimal digits. No digit at all throws \<open>std::invalid_argument\<close>; a
  value that does not fit \<open>int\<close> throws \<open>std::out_of_range\<close>. Whatever follows the digits
  is ignored, since the source passes no position argument.
\<close>

datatype stoi_error = invalid_argument | out_of_range

definition isspace :: "char \<Rightarrow> bool" where
  "isspace c = (c \<in> set [CHR '' '', CHR 0x09, CHR 0x0A, CHR 0x0B, CHR 0x0C, CHR 0x0D])"

definition isdigit :: "char \<Rightarrow> bool" where
  "isdigit c = (48 \<le> (of_char c :: nat) \<and> (of_char c :: nat) \<le> 57)"

definition digit_val :: "char \<Rightarrow> int" where
  "digit_val c = int (of_char c) - 48"

definition digits_val :: "string \<Rightarrow> int" where
  "digits_val ds = foldl (\<lambda>acc c. 10 * acc + digit_val c) 0 ds"

definition INT_MIN :: int where "INT_MIN = - 2147483648"
definition INT_MAX :: int where "INT_MAX = 2147483647"

definition stoi :: "string \<Rightarrow> stoi_error + int" where
  "stoi str =
     (let s1 = dropWhile isspace str;
          neg = (s1 \<noteq> [] \<and> hd s1 = CHR ''-'');
          s2 = (if s1 \<noteq> [] \<and> (hd s1 = CHR ''-'' \<or> hd s1 = CHR ''+'') then tl s1 else s1);
          ds = takeWhile isdigit s2
      in if ds = [] then Inl invalid_argument
         else let v = (if neg then - digits_val ds else digits_val ds)
              in if v < INT_MIN \<or> INT_MAX < v then Inl out_of_range else Inr v)"

text \<open>\<open>std::to_string(int)\<close>: the decimal digits, most significant first, after a minus sign
  when the value is negative.\<close>

fun digits :: "nat \<Rightarrow> string" where
  "digits n = (if n < 10 then [''0123456789'' ! n]
               else digits (n div 10) @ [''0123456789'' ! (n mod 10)])"

declare digits.simps [simp del]

definition to_string :: "int \<Rightarrow> string" where
  "to_string v = (if v < 0 then CHR ''-'' # digits (nat (- v)) else digits (nat v))"

text \<open>\<open>haystack.find(needle)\<close>: the first position at which \<open>needle\<close> occurs, \<open>None\<close> for
  \<open>std::string::npos\<close>.\<close>

fun string_find :: "string \<Rightarrow> string \<Rightarrow> nat option" where
  "string_find [] needle = (if needle = [] then Some 0 else None)"
| "string_find (h # hs) needle =
     (if prefix needle (h # hs) then Some 0 else map_option Suc (string_find hs needle))"

text \<open>\<open>strncmp(a, b, n) == 0\<close>: the first \<open>n\<close> characters agree, the comparison ending
  early where both strings end.\<close>

fun strncmp_eq :: "string \<Rightarrow> string \<Rightarrow> nat \<Rightarrow> bool" where
  "strncmp_eq a b 0 = True"
| "strncmp_eq [] [] (Suc n) = True"
| "strncmp_eq [] (y # ys) (Suc n) = False"
| "strncmp_eq (x # xs) [] (Suc n) = False"
| "strncmp_eq (x # xs) (y # ys) (Suc n) = (x = y \<and> strncmp_eq xs ys n)"

text \<open>\<open>std::getline(file, value)\<close> on a freshly opened stream: the characters before the
  first newline; the empty string when nothing can be read.\<close>

definition getline :: "string option \<Rightarrow> string" where
  "getline d = (case d of None \<Rightarrow> [] | Some s \<Rightarrow> takeWhile (\<lambda>c. c \<noteq> CHR 0x0A) s)"

subsection \<open>The world: file system, output streams, trace of system calls\<close>

datatype amode = R_OK | W_OK

datatype syscall =
    Access string amode
  | Opendir string
  | OpenIn string
  | OpenOut string

datatype stream = Cout | Cerr

record world =
  access_ok :: "string \<Rightarrow> amode \<Rightarrow> bool"
  dir_entries :: "string \<Rightarrow> string list option"
  can_open_in :: "string \<Rightarrow> bool"
  can_open_out :: "string \<Rightarrow> bool"
  file_data :: "string \<Rightarrow> string option"
  printed :: "(stream \<times> string) list"
  trace :: "syscall list"

text \<open>
  \<open>access_ok w p m\<close>: \<open>access(p, m) == 0\<close>. \<open>dir_entries w p\<close>: \<open>None\<close> when
  \<open>opendir(p)\<close> returns \<open>nullptr\<close>, otherwise the names \<open>readdir\<close> yields, in its order.
  \<open>can_open_in\<close>, \<open>can_open_out\<close>: whether \<open>std::ifstream\<close>, \<open>std::ofstream\<close> open.
  \<open>file_data w p\<close>: the bytes of the file, \<open>None\<close> when reading it fails. The control
  files are modelled as plain files: a stream that opens for writing truncates the file,
  and what is written to it is what the file holds afterwards.
\<close>

definition sys_access :: "string \<Rightarrow> amode \<Rightarrow> world \<Rightarrow> bool \<times> world" where
  "sys_access p m w = (access_ok w p m, w\<lparr>trace := trace w @ [Access p m]\<rparr>)"

definition sys_opendir :: "string \<Rightarrow> world \<Rightarrow> string list option \<times> world" where
  "sys_opendir p w = (dir_entries w p, w\<lparr>trace := trace w @ [Opendir p]\<rparr>)"

definition open_in :: "string \<Rightarrow> world \<Rightarrow> bool \<times> world" where
  "open_in p w = (can_open_in w p, w\<lparr>trace := trace w @ [OpenIn p]\<rparr>)"

definition open_out :: "string \<Rightarrow> world \<Rightarrow> bool \<times> world" where
  "open_out p w = (can_open_out w p, w\<lparr>trace := trace w @ [OpenOut p]\<rparr>)"

definition print :: "stream \<Rightarrow> string \<Rightarrow> world \<Rightarrow> world" where
  "print s txt w = w\<lparr>printed := printed w @ [(s, txt)]\<rparr>"

definition is_write_call :: "syscall \<Rightarrow> bool" where
  "is_write_call c = (case c of Access p m \<Rightarrow> m = W_OK | OpenOut p \<Rightarrow> True | _ \<Rightarrow> False)"

subsection \<open>Constants and feature-path detection\<close>

definition POWER_PATH :: string where
  "POWER_PATH = ''/sys/class/power_supply/BAT1/charge_control_end_threshold''"
definition FAN_PATH :: string where
  "FAN_PATH = ''/sys/bus/acpi/devices/PNP0C0B:00/fan_speed_rpm''"
definition PLATFORM_PROFILE_PATH :: string where
  "PLATFORM_PROFILE_PATH = ''/sys/firmware/acpi/platform_profile''"
definition PLATFORM_PROFILE_CHOICES_PATH :: string where
  "PLATFORM_PROFILE_CHOICES_PATH = ''/sys/firmware/acpi/platform_profile_choices''"
definition KBD_BACKLIGHT_PATH :: string where
  "KBD_BACKLIGHT_PATH = ''/sys/class/leds/samsung-galaxybook::kbd_backlight/brightness''"

definition DRIVER_DIR :: string where
  "DRIVER_DIR = ''/sys/bus/platform/drivers/samsung-galaxybook''"

text \<open>The \<open>while ((entry = readdir(dir)) != nullptr)\<close> loop of \<open>detect_feature_path\<close>, over
  the entries still to come; \<open>Some path\<close> is the \<open>return path\<close> inside the loop.\<close>

fun scan_entries :: "string \<Rightarrow> string list \<Rightarrow> world \<Rightarrow> string option \<times> world" where
  "scan_entries feature_name [] w = (None, w)"
| "scan_entries feature_name (d_name # rest) w =
     (if strncmp_eq d_name ''SAM'' 3 then
        (let path = ''/sys/bus/platform/drivers/samsung-galaxybook/'' @ d_name @ ''/'' @ feature_name;
             (ok, w1) = sys_access path R_OK w
         in if ok then (Some path, w1) else scan_entries feature_name rest w1)
      else scan_entries feature_name rest w)"

definition detect_feature_path :: "string \<Rightarrow> world \<Rightarrow> string \<times> world" where
  "detect_feature_path feature_name w =
     (let udev_path = ''/dev/samsung-galaxybook/'' @ feature_name;
          (ok, w1) = sys_access udev_path R_OK w
      in if ok then (udev_path, w1)
         else
           (let (dir, w2) = sys_opendir DRIVER_DIR w1;
                (found, w3) = (case dir of
                                 None \<Rightarrow> (None, w2)
                               | Some entries \<Rightarrow> scan_entries feature_name entries w2)
            in case found of
                 Some path \<Rightarrow> (path, w3)
               | None \<Rightarrow> (''/sys/bus/acpi/devices/SCAI:00/'' @ feature_name, w3)))"

text \<open>The three global path variables, set by dynamic initialisation before \<open>main\<close> runs,
  in the order of their declarations.\<close>

record globals =
  ALLOW_RECORDING_PATH :: string
  START_ON_LID_OPEN_PATH :: string
  USB_CHARGE_PATH :: string

definition static_init :: "world \<Rightarrow> globals \<times> world" where
  "static_init w =
     (let (p1, w1) = detect_feature_path ''allow_recording'' w;
          (p2, w2) = detect_feature_path ''start_on_lid_open'' w1;
          (p3, w3) = detect_feature_path ''usb_charge'' w2
      in (\<lparr>ALLOW_RECORDING_PATH = p1, START_ON_LID_OPEN_PATH = p2, USB_CHARGE_PATH = p3\<rparr>, w3))"

subsection \<open>Namespace \<open>file_ops\<close>\<close>

definition check_permissions :: "string \<Rightarrow> bool \<Rightarrow> world \<Rightarrow> bool \<times> world" where
  "check_permissions path write w =
     (let (ok, w1) = sys_access path (if write then W_OK else R_OK) w
      in if \<not> ok then (False, print Cerr ''Error: Permission denied. Run with sudo.\<newline>'' w1)
         else (True, w1))"

text \<open>\<open>read_file(path, value)\<close>: the second argument is the content of the reference
  parameter at the call; the result carries its content at the return.\<close>

definition read_file :: "string \<Rightarrow> string \<Rightarrow> world \<Rightarrow> (bool \<times> string) \<times> world" where
  "read_file path value w =
     (let (is_open, w1) = open_in path w
      in if \<not> is_open
         then ((False, value), print Cerr (''Error: Could not open '' @ path @ ''\<newline>'') w1)
         else ((True, getline (file_data w1 path)), w1))"

definition write_file :: "string \<Rightarrow> string \<Rightarrow> world \<Rightarrow> bool \<times> world" where
  "write_file path value w =
     (let (permitted, w1) = check_permissions path True w
      in if \<not> permitted then (False, w1)
         else
           (let (is_open, w2) = open_out path w1
            in if \<not> is_open
               then (False, print Cerr (''Error: Could not write to '' @ path @ ''\<newline>'') w2)
               else (True, w2\<lparr>file_data := (file_data w2)(path := Some value)\<rparr>)))"

subsection \<open>\<open>PowerCommand\<close>\<close>

definition read_power :: "world \<Rightarrow> bool \<times> world" where
  "read_power w =
     (let ((ok, value), w1) = read_file POWER_PATH [] w
      in if \<not> ok then (False, w1)
         else (True, print Cout (''Current charge threshold: '' @ value @ ''%\<newline>'') w1))"

definition set_power :: "string \<Rightarrow> world \<Rightarrow> bool \<times> world" where
  "set_power value w =
     (case stoi value of
        Inl e \<Rightarrow> (False, print Cerr (''Error: Invalid value '' @ [CHR 0x27] @ value @ [CHR 0x27] @ ''\<newline>'') w)
      | Inr val \<Rightarrow>
          if val < 0 \<or> val > 100
          then (False, print Cerr ''Error: Value must be between 0 and 100\<newline>'' w)
          else
            (let (ok, w1) = write_file POWER_PATH (to_string val) w
             in if \<not> ok then (False, w1)
                else (True, print Cout (''Set charge threshold to '' @ to_string val @ ''%\<newline>'') w1)))"

definition PowerCommand_execute :: "string list \<Rightarrow> world \<Rightarrow> bool \<times> world" where
  "PowerCommand_execute args w =
     (if length args < 2
      then (False, print Cerr ''Error: Missing power subcommand. Use 'read' or 'set'.\<newline>'' w)
      else
        (let subcommand = args ! 1
         in if subcommand = ''read'' then read_power w
            else if subcommand = ''set'' then
              (if length args < 3
               then (False, print Cerr ''Error: Missing value for 'power set'\<newline>'' w)
               else set_power (args ! 2) w)
            else (False, print Cerr (''Error: Unknown power subcommand '' @ [CHR 0x27] @ subcommand
                                      @ [CHR 0x27] @ ''\<newline>'') w)))"

subsection \<open>\<open>FanCommand\<close>\<close>

definition read_fan :: "world \<Rightarrow> bool \<times> world" where
  "read_fan w =
     (let ((ok, value), w1) = read_file FAN_PATH [] w
      in if \<not> ok then (False, w1)
         else (True, print Cout (''Current fan speed: '' @ value @ '' RPM\<newline>'') w1))"

definition FanCommand_execute :: "string list \<Rightarrow> world \<Rightarrow> bool \<times> world" where
  "FanCommand_execute args w =
     (if length args < 2
      then (False, print Cerr ''Error: Missing fan subcommand. Use 'read'.\<newline>'' w)
      else
        (let subcommand = args ! 1
         in if subcommand = ''read'' then read_fan w
            else (False, print Cerr (''Error: Unknown fan subcommand '' @ [CHR 0x27] @ subcommand
                                      @ [CHR 0x27] @ ''\<newline>'') w)))"

subsection \<open>\<open>PerformanceCommand\<close>\<close>

definition read_performance_mode :: "world \<Rightarrow> bool \<times> world" where
  "read_performance_mode w =
     (let ((ok, value), w1) = read_file PLATFORM_PROFILE_PATH [] w
      in if \<not> ok then (False, w1)
         else (True, print Cout (''Current performance mode: '' @ value @ ''\<newline>'') w1))"

definition set_performance_mode :: "string \<Rightarrow> world \<Rightarrow> bool \<times> world" where
  "set_performance_mode mode w =
     (let ((ok, available_modes), w1) = read_file PLATFORM_PROFILE_CHOICES_PATH [] w
      in if \<not> ok then (False, w1)
         else if string_find available_modes mode = None
         then (False, print Cerr (''Error: Invalid performance mode '' @ [CHR 0x27] @ mode
                                   @ [CHR 0x27] @ ''\<newline>'') w1)
         else
           (let (written, w2) = write_file PLATFORM_PROFILE_PATH mode w1
            in if \<not> written then (False, w2)
               else (True, print Cout (''Set performance mode to '' @ mode @ ''\<newline>'') w2)))"

definition list_performance_modes :: "world \<Rightarrow> bool \<times> world" where
  "list_performance_modes w =
     (let ((ok, value), w1) = read_file PLATFORM_PROFILE_CHOICES_PATH [] w
      in if \<not> ok then (False, w1)
         else (True, print Cout (''Available performance modes: '' @ value @ ''\<newline>'') w1))"

definition PerformanceCommand_execute :: "string list \<Rightarrow> world \<Rightarrow> bool \<times> world" where
  "PerformanceCommand_execute args w =
     (if length args < 2
      then (False, print Cerr
              ''Error: Missing performance subcommand. Use 'read', 'set', or 'list'.\<newline>'' w)
      else
        (let subcommand = args ! 1
         in if subcommand = ''read'' then read_performance_mode w
            else if subcommand = ''set'' then
              (if length args < 3
               then (False, print Cerr ''Error: Missing mode for 'perf set'\<newline>'' w)
               else set_performance_mode (args ! 2) w)
            else if subcommand = ''list'' then list_performance_modes w
            else (False, print Cerr (''Error: Unknown performance subcommand '' @ [CHR 0x27]
                                      @ subcommand @ [CHR 0x27] @ ''\<newline>'') w)))"

subsection \<open>\<open>RecordingCommand\<close>\<close>

definition read_recording_status :: "globals \<Rightarrow> world \<Rightarrow> bool \<times> world" where
  "read_recording_status g w =
     (let ((ok, value), w1) = read_file (ALLOW_RECORDING_PATH g) [] w
      in if \<not> ok then (False, w1)
         else (True, print Cout (''Recording permission: ''
                                  @ (if value = ''1'' then ''Enabled'' else ''Disabled'')
                                  @ ''\<newline>'') w1))"

definition set_recording_status :: "globals \<Rightarrow> string \<Rightarrow> world \<Rightarrow> bool \<times> world" where
  "set_recording_status g value w =
     (case (if value = ''0'' \<or> value = ''off'' \<or> value = ''false'' \<or> value = ''no''
            then Some ''0''
            else if value = ''1'' \<or> value = ''on'' \<or> value = ''true'' \<or> value = ''yes''
            then Some ''1''
            else None) of
        None \<Rightarrow>
          (False, print Cerr
             ''Error: Value must be one of: 0/1, on/off, true/false, yes/no\<newline>'' w)
      | Some normalized_value \<Rightarrow>
          (let (ok, w1) = write_file (ALLOW_RECORDING_PATH g) normalized_value w
           in if \<not> ok then (False, w1)
              else (True, print Cout (''Set recording permission to ''
                                       @ (if normalized_value = ''1'' then ''Enabled'' else ''Disabled'')
                                       @ ''\<newline>'') w1)))"

definition RecordingCommand_execute :: "globals \<Rightarrow> string list \<Rightarrow> world \<Rightarrow> bool \<times> world" where
  "RecordingCommand_execute g args w =
     (if length args < 2
      then (False, print Cerr
              ''Error: Missing recording subcommand. Use 'read' or 'set'.\<newline>'' w)
      else
        (let subcommand = args ! 1
         in if subcommand = ''read'' then read_recording_status g w
            else if subcommand = ''set'' then
              (if length args < 3
               then (False, print Cerr ''Error: Missing value for 'record set'\<newline>'' w)
               else set_recording_status g (args ! 2) w)
            else (False, print Cerr (''Error: Unknown recording subcommand '' @ [CHR 0x27]
                                      @ subcommand @ [CHR 0x27] @ ''\<newline>'') w)))"

subsection \<open>\<open>KeyboardCommand\<close>\<close>

definition read_keyboard_backlight :: "world \<Rightarrow> bool \<times> world" where
  "read_keyboard_backlight w =
     (let ((ok, value), w1) = read_file KBD_BACKLIGHT_PATH [] w
      in if \<not> ok then (False, w1)
         else (True, print Cout (''Keyboard backlight level: '' @ value @ ''\<newline>'') w1))"

definition set_keyboard_backlight :: "string \<Rightarrow> world \<Rightarrow> bool \<times> world" where
  "set_keyboard_backlight value w =
     (case stoi value of
        Inl e \<Rightarrow> (False, print Cerr (''Error: Invalid value '' @ [CHR 0x27] @ value @ [CHR 0x27] @ ''\<newline>'') w)
      | Inr val \<Rightarrow>
          if val < 0 \<or> val > 3
          then (False, print Cerr ''Error: Value must be between 0 and 3\<newline>'' w)
          else
            (let (ok, w1) = write_file KBD_BACKLIGHT_PATH (to_string val) w
             in if \<not> ok then (False, w1)
                else (True, print Cout (''Set keyboard backlight level to '' @ to_string val
                                         @ ''\<newline>'') w1)))"

definition KeyboardCommand_execute :: "string list \<Rightarrow> world \<Rightarrow> bool \<times> world" where
  "KeyboardCommand_execute args w =
     (if length args < 2
      then (False, print Cerr ''Error: Missing keyboard subcommand. Use 'read' or 'set'.\<newline>'' w)
      else
        (let subcommand = args ! 1
         in if subcommand = ''read'' then read_keyboard_backlight w
            else if subcommand = ''set'' then
              (if length args < 3
               then (False, print Cerr ''Error: Missing value for 'kbd set'\<newline>'' w)
               else set_keyboard_backlight (args ! 2) w)
            else (False, print Cerr (''Error: Unknown keyboard subcommand '' @ [CHR 0x27] @ subcommand
                                      @ [CHR 0x27] @ ''\<newline>'') w)))"

subsection \<open>\<open>StartOnLidOpenCommand\<close>\<close>

definition StartOnLidOpenCommand_read_status :: "globals \<Rightarrow> world \<Rightarrow> bool \<times> world" where
  "StartOnLidOpenCommand_read_status g w =
     (let ((ok, value), w1) = read_file (START_ON_LID_OPEN_PATH g) [] w
      in if \<not> ok then (False, w1)
         else (True, print Cout (''Start on lid open: ''
                                  @ (if value = ''1'' then ''Enabled'' else ''Disabled'')
                                  @ ''\<newline>'') w1))"

definition StartOnLidOpenCommand_set_status :: "globals \<Rightarrow> string \<Rightarrow> world \<Rightarrow> bool \<times> world" where
  "StartOnLidOpenCommand_set_status g value w =
     (case (if value = ''0'' \<or> value = ''off'' \<or> value = ''false'' \<or> value = ''no''
            then Some ''0''
            else if value = ''1'' \<or> value = ''on'' \<or> value = ''true'' \<or> value = ''yes''
            then Some ''1''
            else None) of
        None \<Rightarrow>
          (False, print Cerr
             ''Error: Value must be one of: 0/1, on/off, true/false, yes/no\<newline>'' w)
      | Some normalized_value \<Rightarrow>
          (let (ok, w1) = write_file (START_ON_LID_OPEN_PATH g) normalized_value w
           in if \<not> ok then (False, w1)
              else (True, print Cout (''Set start on lid open to ''
                                       @ (if normalized_value = ''1'' then ''Enabled'' else ''Disabled'')
                                       @ ''\<newline>'') w1)))"

definition StartOnLidOpenCommand_execute :: "globals \<Rightarrow> string list \<Rightarrow> world \<Rightarrow> bool \<times> world" where
  "StartOnLidOpenCommand_execute g args w =
     (if length args < 2
      then (False, print Cerr
              ''Error: Missing start-on-lid-open subcommand. Use 'read' or 'set'.\<newline>'' w)
      else
        (let subcommand = args ! 1
         in if subcommand = ''read'' then StartOnLidOpenCommand_read_status g w
            else if subcommand = ''set'' then
              (if length args < 3
               then (False, print Cerr ''Error: Missing value for 'start-on-lid-open set'\<newline>'' w)
               else StartOnLidOpenCommand_set_status g (args ! 2) w)
            else (False, print Cerr (''Error: Unknown start-on-lid-open subcommand '' @ [CHR 0x27]
                                      @ subcommand @ [CHR 0x27] @ ''\<newline>'') w)))"

subsection \<open>\<open>UsbChargeCommand\<close>\<close>

definition UsbChargeCommand_read_status :: "globals \<Rightarrow> world \<Rightarrow> bool \<times> world" where
  "UsbChargeCommand_read_status g w =
     (let ((ok, value), w1) = read_file (USB_CHARGE_PATH g) [] w
      in if \<not> ok then (False, w1)
         else (True, print Cout (''USB charge: ''
                                  @ (if value = ''1'' then ''Enabled'' else ''Disabled'')
                                  @ ''\<newline>'') w1))"

definition UsbChargeCommand_set_status :: "globals \<Rightarrow> string \<Rightarrow> world \<Rightarrow> bool \<times> world" where
  "UsbChargeCommand_set_status g value w =
     (case (if value = ''0'' \<or> value = ''off'' \<or> value = ''false'' \<or> value = ''no''
            then Some ''0''
            else if value = ''1'' \<or> value = ''on'' \<or> value = ''true'' \<or> value = ''yes''
            then Some ''1''
            else None) of
        None \<Rightarrow>
          (False, print Cerr
             ''Error: Value must be one of: 0/1, on/off, true/false, yes/no\<newline>'' w)
      | Some normalized_value \<Rightarrow>
          (let (ok, w1) = write_file (USB_CHARGE_PATH g) normalized_value w
           in if \<not> ok then (False, w1)
              else (True, print Cout (''Set USB charge to ''
                                       @ (if normalized_value = ''1'' then ''Enabled'' else ''Disabled'')
                                       @ ''\<newline>'') w1)))"

definition UsbChargeCommand_execute :: "globals \<Rightarrow> string list \<Rightarrow> world \<Rightarrow> bool \<times> world" where
  "UsbChargeCommand_execute g args w =
     (if length args < 2
      then (False, print Cerr
              ''Error: Missing usb-charge subcommand. Use 'read' or 'set'.\<newline>'' w)
      else
        (let subcommand = args ! 1
         in if subcommand = ''read'' then UsbChargeCommand_read_status g w
            else if subcommand = ''set'' then
              (if length args < 3
               then (False, print Cerr ''Error: Missing value for 'usb-charge set'\<newline>'' w)
               else UsbChargeCommand_set_status g (args ! 2) w)
            else (False, print Cerr (''Error: Unknown usb-charge subcommand '' @ [CHR 0x27]
                                      @ subcommand @ [CHR 0x27] @ ''\<newline>'') w)))"

subsection \<open>The command table and \<open>HelpCommand\<close>\<close>

datatype command =
    PowerCommand
  | FanCommand
  | PerformanceCommand
  | RecordingCommand
  | KeyboardCommand
  | StartOnLidOpenCommand
  | UsbChargeCommand
  | HelpCommand

fun get_help :: "command \<Rightarrow> string" where
  "get_help PowerCommand =
     ''  power read    Read the charge threshold\<newline>'' @
     ''  power set <value>  Set the charge threshold (0-100)''"
| "get_help FanCommand = ''  fan read      Read current fan speed in RPM''"
| "get_help PerformanceCommand =
     ''  perf read     Read current performance mode\<newline>'' @
     ''  perf set <mode>  Set performance mode (low-power/balanced/performance)\<newline>'' @
     ''  perf list     List available performance modes''"
| "get_help RecordingCommand =
     ''  record read   Read recording permission status\<newline>'' @
     ''  record set <value>  Set recording permission (0/1, on/off, true/false, yes/no)''"
| "get_help KeyboardCommand =
     ''  kbd read      Read keyboard backlight level\<newline>'' @
     ''  kbd set <0-3> Set keyboard backlight level (0=off, 1-3=brightness)\<newline>'' @
     ''               Note: Backlight may be affected by ambient light sensor\<newline>'' @
     ''               and GNOME's automatic backlight control''"
| "get_help StartOnLidOpenCommand =
     ''  start-on-lid-open read   Read start on lid open status\<newline>'' @
     ''  start-on-lid-open set <value>  Set start on lid open (0/1, on/off, true/false, yes/no)''"
| "get_help UsbChargeCommand =
     ''  usb-charge read   Read USB charge status\<newline>'' @
     ''  usb-charge set <value>  Set USB charge (0/1, on/off, true/false, yes/no)''"
| "get_help HelpCommand = ''  help          Show this help message''"

text \<open>\<open>std::map<std::string, ...>\<close>: an association list kept in the order of
  \<open>std::string\<close>'s \<open>operator<\<close> (bytes compared as unsigned, a proper prefix first), which is
  the order a range-for visits it in. \<open>map_assign\<close> is \<open>m[k] = v\<close>.\<close>

fun string_less :: "string \<Rightarrow> string \<Rightarrow> bool" where
  "string_less [] [] = False"
| "string_less [] (b # bs) = True"
| "string_less (a # as) [] = False"
| "string_less (a # as) (b # bs) =
     ((of_char a :: nat) < of_char b \<or> (a = b \<and> string_less as bs))"

fun map_assign :: "string \<Rightarrow> 'v \<Rightarrow> (string \<times> 'v) list \<Rightarrow> (string \<times> 'v) list" where
  "map_assign k v [] = [(k, v)]"
| "map_assign k v ((k', v') # m) =
     (if k = k' then (k, v) # m
      else if string_less k k' then (k, v) # (k', v') # m
      else (k', v') # map_assign k v m)"

definition commands :: "(string \<times> command) list" where
  "commands =
     foldl (\<lambda>m (name, cmd). map_assign name cmd m) []
       [(''power'', PowerCommand),
        (''fan'', FanCommand),
        (''perf'', PerformanceCommand),
        (''record'', RecordingCommand),
        (''kbd'', KeyboardCommand),
        (''start-on-lid-open'', StartOnLidOpenCommand),
        (''usb-charge'', UsbChargeCommand),
        (''help'', HelpCommand)]"

definition print_help :: "world \<Rightarrow> world" where
  "print_help w =
     foldl (\<lambda>w' (name, cmd). print Cout (get_help cmd @ ''\<newline>'') w')
       (print Cout (''Usage: samsung-cli <command> [<args>]\<newline>'' @
                    ''CLI tool to control Samsung Galaxy Book features.\<newline>\<newline>'' @
                    ''Commands:\<newline>'') w)
       commands"

definition HelpCommand_execute :: "string list \<Rightarrow> world \<Rightarrow> bool \<times> world" where
  "HelpCommand_execute args w = (True, print_help w)"

text \<open>The virtual call \<open>cmd->execute(args)\<close>.\<close>

fun execute :: "globals \<Rightarrow> command \<Rightarrow> string list \<Rightarrow> world \<Rightarrow> bool \<times> world" where
  "execute g PowerCommand args w = PowerCommand_execute args w"
| "execute g FanCommand args w = FanCommand_execute args w"
| "execute g PerformanceCommand args w = PerformanceCommand_execute args w"
| "execute g RecordingCommand args w = RecordingCommand_execute g args w"
| "execute g KeyboardCommand args w = KeyboardCommand_execute args w"
| "execute g StartOnLidOpenCommand args w = StartOnLidOpenCommand_execute g args w"
| "execute g UsbChargeCommand args w = UsbChargeCommand_execute g args w"
| "execute g HelpCommand args w = HelpCommand_execute args w"

subsection \<open>\<open>main\<close>\<close>

text \<open>\<open>argv\<close> is the whole argument vector, program name first; \<open>argc\<close> is its length. The
  result is the exit status.\<close>

definition main :: "globals \<Rightarrow> string list \<Rightarrow> world \<Rightarrow> int \<times> world" where
  "main g argv w =
     (if length argv < 2
      then (let (r, w1) = execute g HelpCommand [] w in (1, w1))
      else
        (let command = argv ! 1;
             args = drop 1 argv
         in case map_of commands command of
              None \<Rightarrow>
                (let w1 = print Cerr (''Error: Unknown command '' @ [CHR 0x27] @ command
                                       @ [CHR 0x27] @ ''\<newline>'') w;
                     (r, w2) = execute g HelpCommand [] w1
                 in (1, w2))
            | Some cmd \<Rightarrow>
                (let (ok, w1) = execute g cmd args w in (if ok then 0 else 1, w1))))"

text \<open>A run of the process: the globals are initialised, then \<open>main\<close> runs.\<close>

definition run :: "string list \<Rightarrow> world \<Rightarrow> int \<times> world" where
  "run argv w = (let (g, w1) = static_init w in main g argv w1)"

subsection \<open>Value domains and decimal numerals, as the specification words them\<close>

text \<open>A numeric representation of an integer: an optional sign, then decimal digits and
  nothing else.\<close>

definition integer_numeral :: "string \<Rightarrow> bool" where
  "integer_numeral s =
     (let body = (if s \<noteq> [] \<and> (hd s = CHR ''-'' \<or> hd s = CHR ''+'') then tl s else s)
      in body \<noteq> [] \<and> list_all isdigit body)"

text \<open>The accepted spellings of the boolean-like features.\<close>

definition off_tokens :: "string list" where
  "off_tokens = [''0'', ''off'', ''false'', ''no'']"

definition on_tokens :: "string list" where
  "on_tokens = [''1'', ''on'', ''true'', ''yes'']"

text \<open>The shape the three boolean-like \<open>set\<close> functions share: the text \<open>label\<close> of the
  confirmation and the control file \<open>path\<close> are what differs between them. Each of
  \<open>set_recording_status\<close>, \<open>StartOnLidOpenCommand_set_status\<close> and
  \<open>UsbChargeCommand_set_status\<close> is proved equal to an instance of it.\<close>

definition boolean_set :: "string \<Rightarrow> string \<Rightarrow> string \<Rightarrow> world \<Rightarrow> bool \<times> world" where
  "boolean_set label path value w =
     (if value \<in> set off_tokens then
        (if access_ok w path W_OK \<and> can_open_out w path
         then (True, print Cout (label @ '' to Disabled\<newline>'') (snd (write_file path ''0'' w)))
         else (False, snd (write_file path ''0'' w)))
      else if value \<in> set on_tokens then
        (if access_ok w path W_OK \<and> can_open_out w path
         then (True, print Cout (label @ '' to Enabled\<newline>'') (snd (write_file path ''1'' w)))
         else (False, snd (write_file path ''1'' w)))
      else (False, print Cerr
              ''Error: Value must be one of: 0/1, on/off, true/false, yes/no\<newline>'' w))"



subsection \<open>What the handlers test before they write\<close>


text \<open>The control file of each feature that has a \<open>set\<close> operation.\<close>

fun control_path :: "globals \<Rightarrow> command \<Rightarrow> string" where
  "control_path g PowerCommand = POWER_PATH"
| "control_path g KeyboardCommand = KBD_BACKLIGHT_PATH"
| "control_path g PerformanceCommand = PLATFORM_PROFILE_PATH"
| "control_path g RecordingCommand = ALLOW_RECORDING_PATH g"
| "control_path g StartOnLidOpenCommand = START_ON_LID_OPEN_PATH g"
| "control_path g UsbChargeCommand = USB_CHARGE_PATH g"
| "control_path g FanCommand = FAN_PATH"
| "control_path g HelpCommand = []"

subsection \<open>Concrete machines\<close>

text \<open>A machine on which no path exists; one with the udev link of \<open>usb_charge\<close>; one with
  the attribute under the platform driver's \<open>SAM1234\<close> entry only; and one whose fixed
  control files are plain readable and writable files.\<close>

definition nothing_exists :: world where
  "nothing_exists =
     \<lparr>access_ok = (\<lambda>p m. False), dir_entries = (\<lambda>p. None), can_open_in = (\<lambda>p. False),
      can_open_out = (\<lambda>p. False), file_data = (\<lambda>p. None), printed = [], trace = []\<rparr>"

definition udev_world :: world where
  "udev_world =
     nothing_exists\<lparr>access_ok := (\<lambda>p m. p = ''/dev/samsung-galaxybook/usb_charge'')\<rparr>"

definition driver_world :: world where
  "driver_world = nothing_exists
     \<lparr>access_ok := (\<lambda>p m. p = ''/sys/bus/platform/drivers/samsung-galaxybook/SAM1234/usb_charge''),
      dir_entries := (\<lambda>p. if p = ''/sys/bus/platform/drivers/samsung-galaxybook''
                            then Some [''.'', ''..'', ''SAM1234''] else None)\<rparr>"

definition plain_files :: world where
  "plain_files =
     \<lparr>access_ok = (\<lambda>p m. True), dir_entries = (\<lambda>p. None), can_open_in = (\<lambda>p. True),
      can_open_out = (\<lambda>p. True),
      file_data = (\<lambda>p. if p = POWER_PATH then Some ''80\<newline>''
                        else if p = PLATFORM_PROFILE_CHOICES_PATH
                        then Some ''low-power balanced performance\<newline>''
                        else if p = PLATFORM_PROFILE_PATH then Some ''balanced\<newline>''
                        else if p = KBD_BACKLIGHT_PATH then Some ''1\<newline>''
                        else Some ''0\<newline>''),
      printed = [], trace = []\<rparr>"

text \<open>The same machine with a choices file of two lines.\<close>

definition two_line_choices :: world where
  "two_line_choices =
     plain_files\<lparr>file_data :=
       (\<lambda>p. if p = PLATFORM_PROFILE_CHOICES_PATH
            then Some ''low-power balanced\<newline>performance\<newline>''
            else file_data plain_files p)\<rparr>"

definition acpi_globals :: globals where
  "acpi_globals =
     \<lparr>ALLOW_RECORDING_PATH = ''/sys/bus/acpi/devices/SCAI:00/allow_recording'',
      START_ON_LID_OPEN_PATH = ''/sys/bus/acpi/devices/SCAI:00/start_on_lid_open'',
      USB_CHARGE_PATH = ''/sys/bus/acpi/devices/SCAI:00/usb_charge''\<rparr>"



section \<open>Feature-path detection\<close>

lemma strncmp_eq_SAM: "strncmp_eq s ''SAM'' 3 = prefix ''SAM'' s"
  apply (cases s; simp add: numeral_3_eq_3)
  subgoal for a s1 apply (cases s1; simp) 
    subgoal for b s2 apply (cases s2; simp) by auto
    done
  done

lemma scan_entries_Cons:
  "scan_entries f (e # es) w =
     (if prefix ''SAM'' e then
        (if access_ok w (DRIVER_DIR @ ''/'' @ e @ ''/'' @ f) R_OK
         then (Some (DRIVER_DIR @ ''/'' @ e @ ''/'' @ f),
               w\<lparr>trace := trace w @ [Access (DRIVER_DIR @ ''/'' @ e @ ''/'' @ f) R_OK]\<rparr>)
         else scan_entries f es (w\<lparr>trace := trace w @ [Access (DRIVER_DIR @ ''/'' @ e @ ''/'' @ f) R_OK]\<rparr>))
      else scan_entries f es w)"
  by (simp add: strncmp_eq_SAM sys_access_def DRIVER_DIR_def Let_def)

lemma scan_entries_fst:
  "fst (scan_entries f es w) =
     map_option (\<lambda>e. DRIVER_DIR @ ''/'' @ e @ ''/'' @ f)
       (find (\<lambda>e. prefix ''SAM'' e \<and> access_ok w (DRIVER_DIR @ ''/'' @ e @ ''/'' @ f) R_OK) es)"
proof (induction es arbitrary: w)
  case Nil
  show ?case by simp
next
  case (Cons e es)
  show ?case
    by (simp add: Cons.IH scan_entries_Cons del: scan_entries.simps)
qed

lemma scan_entries_snd:
  "\<exists>evs. snd (scan_entries f es w) = w\<lparr>trace := trace w @ evs\<rparr> \<and>
         (\<forall>ev \<in> set evs. \<exists>e. ev = Access (DRIVER_DIR @ ''/'' @ e @ ''/'' @ f) R_OK)"
proof (induction es arbitrary: w)
  case Nil
  have "snd (scan_entries f [] w) = w\<lparr>trace := trace w @ []\<rparr>" by simp
  then show ?case by (metis empty_iff empty_set)
next
  case (Cons e es)
  let ?p = "DRIVER_DIR @ ''/'' @ e @ ''/'' @ f"
  let ?w1 = "w\<lparr>trace := trace w @ [Access ?p R_OK]\<rparr>"
  show ?case
  proof (cases "prefix ''SAM'' e")
    case False
    then have "scan_entries f (e # es) w = scan_entries f es w"
      by (simp add: scan_entries_Cons del: scan_entries.simps)
    then show ?thesis using Cons.IH [of w] by simp
  next
    case sam: True
    show ?thesis
    proof (cases "access_ok w ?p R_OK")
      case True
      then have "snd (scan_entries f (e # es) w) = w\<lparr>trace := trace w @ [Access ?p R_OK]\<rparr>"
        using sam by (simp add: scan_entries_Cons del: scan_entries.simps)
      then show ?thesis by (metis empty_iff empty_set set_ConsD)
    next
      case False
      then have eq: "scan_entries f (e # es) w = scan_entries f es ?w1"
        using sam by (simp add: scan_entries_Cons del: scan_entries.simps)
      from Cons.IH [of ?w1] obtain evs where
        evs: "snd (scan_entries f es ?w1) = ?w1\<lparr>trace := trace ?w1 @ evs\<rparr>"
          "\<forall>ev \<in> set evs. \<exists>e. ev = Access (DRIVER_DIR @ ''/'' @ e @ ''/'' @ f) R_OK"
        by blast
      have "snd (scan_entries f (e # es) w) = w\<lparr>trace := trace w @ (Access ?p R_OK # evs)\<rparr>"
        using eq evs(1) by simp
      moreover have "\<forall>ev \<in> set (Access ?p R_OK # evs). \<exists>e. ev = Access (DRIVER_DIR @ ''/'' @ e @ ''/'' @ f) R_OK"
        using evs(2) by auto
      ultimately show ?thesis by blast
    qed
  qed
qed

lemma detect_feature_path_unfold:
  "detect_feature_path f w =
     (if access_ok w (''/dev/samsung-galaxybook/'' @ f) R_OK
      then (''/dev/samsung-galaxybook/'' @ f,
            w\<lparr>trace := trace w @ [Access (''/dev/samsung-galaxybook/'' @ f) R_OK]\<rparr>)
      else case dir_entries w DRIVER_DIR of
             None \<Rightarrow> (''/sys/bus/acpi/devices/SCAI:00/'' @ f,
                       w\<lparr>trace := trace w @ [Access (''/dev/samsung-galaxybook/'' @ f) R_OK, Opendir DRIVER_DIR]\<rparr>)
           | Some es \<Rightarrow>
               (let r = scan_entries f es
                          (w\<lparr>trace := trace w @ [Access (''/dev/samsung-galaxybook/'' @ f) R_OK, Opendir DRIVER_DIR]\<rparr>)
                in (case fst r of Some path \<Rightarrow> path | None \<Rightarrow> ''/sys/bus/acpi/devices/SCAI:00/'' @ f, snd r)))"
  by (simp add: detect_feature_path_def sys_access_def sys_opendir_def Let_def
           split: option.splits prod.splits)

lemma fallback_not_nested: "''/sys/bus/acpi/devices/SCAI:00/'' @ f \<noteq> DRIVER_DIR @ ''/'' @ e @ ''/'' @ f'"
  by (simp add: DRIVER_DIR_def)

text \<open>
  C1. For every feature name: when \<open>access\<close> finds the udev path readable,
  \<open>detect_feature_path\<close> returns it and that single \<open>access\<close> call is all it does (the
  driver directory is not opened). Otherwise, when the driver directory opens, it returns
  the nested path of the first entry, in \<open>readdir\<close> order, whose name begins with \<open>SAM\<close> and
  whose attribute is readable; when the directory does not open or has no such entry, it
  returns the path under \<open>SCAI:00\<close>. In no case is the \<open>SCAI:00\<close> path itself probed.
\<close>

theorem detect_feature_path_priority:
  "(access_ok w (''/dev/samsung-galaxybook/'' @ f) R_OK \<longrightarrow>
      detect_feature_path f w =
        (''/dev/samsung-galaxybook/'' @ f,
         w\<lparr>trace := trace w @ [Access (''/dev/samsung-galaxybook/'' @ f) R_OK]\<rparr>)) \<and>
   (\<not> access_ok w (''/dev/samsung-galaxybook/'' @ f) R_OK \<longrightarrow>
      fst (detect_feature_path f w) =
        (case dir_entries w DRIVER_DIR of
           None \<Rightarrow> ''/sys/bus/acpi/devices/SCAI:00/'' @ f
         | Some es \<Rightarrow>
             (case find (\<lambda>e. prefix ''SAM'' e \<and>
                              access_ok w (DRIVER_DIR @ ''/'' @ e @ ''/'' @ f) R_OK) es of
                Some e \<Rightarrow> DRIVER_DIR @ ''/'' @ e @ ''/'' @ f
              | None \<Rightarrow> ''/sys/bus/acpi/devices/SCAI:00/'' @ f))) \<and>
   (\<forall>m. Access (''/sys/bus/acpi/devices/SCAI:00/'' @ f) m
          \<notin> set (drop (length (trace w)) (trace (snd (detect_feature_path f w)))))"
proof (intro conjI impI allI)
  assume "access_ok w (''/dev/samsung-galaxybook/'' @ f) R_OK"
  then show "detect_feature_path f w =
        (''/dev/samsung-galaxybook/'' @ f,
         w\<lparr>trace := trace w @ [Access (''/dev/samsung-galaxybook/'' @ f) R_OK]\<rparr>)"
    by (simp add: detect_feature_path_unfold)
next
  assume "\<not> access_ok w (''/dev/samsung-galaxybook/'' @ f) R_OK"
  then show "fst (detect_feature_path f w) =
        (case dir_entries w DRIVER_DIR of
           None \<Rightarrow> ''/sys/bus/acpi/devices/SCAI:00/'' @ f
         | Some es \<Rightarrow>
             (case find (\<lambda>e. prefix ''SAM'' e \<and>
                              access_ok w (DRIVER_DIR @ ''/'' @ e @ ''/'' @ f) R_OK) es of
                Some e \<Rightarrow> DRIVER_DIR @ ''/'' @ e @ ''/'' @ f
              | None \<Rightarrow> ''/sys/bus/acpi/devices/SCAI:00/'' @ f))"
    by (simp add: detect_feature_path_unfold scan_entries_fst Let_def split: option.splits)
next
  fix m
  let ?fb = "''/sys/bus/acpi/devices/SCAI:00/'' @ f"
  let ?w2 = "w\<lparr>trace := trace w @ [Access (''/dev/samsung-galaxybook/'' @ f) R_OK, Opendir DRIVER_DIR]\<rparr>"
  show "Access ?fb m \<notin> set (drop (length (trace w)) (trace (snd (detect_feature_path f w))))"
  proof (cases "access_ok w (''/dev/samsung-galaxybook/'' @ f) R_OK")
    case True
    then show ?thesis by (simp add: detect_feature_path_unfold)
  next
    case no_udev: False
    show ?thesis
    proof (cases "dir_entries w DRIVER_DIR")
      case None
      then show ?thesis using no_udev by (simp add: detect_feature_path_unfold)
    next
      case (Some es)
      obtain evs where evs: "snd (scan_entries f es ?w2) = ?w2\<lparr>trace := trace ?w2 @ evs\<rparr>"
        "\<forall>ev \<in> set evs. \<exists>e. ev = Access (DRIVER_DIR @ ''/'' @ e @ ''/'' @ f) R_OK"
        using scan_entries_snd [of f es ?w2] by blast
      have "Access ?fb m \<notin> set evs"
        using evs(2) fallback_not_nested by blast
      then show ?thesis using no_udev Some evs(1)
        by (simp add: detect_feature_path_unfold Let_def)
    qed
  qed
qed

theorem detect_feature_path_priority_witness:
  "detect_feature_path ''usb_charge'' udev_world =
     (''/dev/samsung-galaxybook/usb_charge'',
      udev_world\<lparr>trace := [Access ''/dev/samsung-galaxybook/usb_charge'' R_OK]\<rparr>) \<and>
   fst (detect_feature_path ''usb_charge'' driver_world) =
     ''/sys/bus/platform/drivers/samsung-galaxybook/SAM1234/usb_charge'' \<and>
   fst (detect_feature_path ''usb_charge'' nothing_exists) = ''/sys/bus/acpi/devices/SCAI:00/usb_charge''"
  using detect_feature_path_priority [of udev_world "''usb_charge''"]
        detect_feature_path_priority [of driver_world "''usb_charge''"]
        detect_feature_path_priority [of nothing_exists "''usb_charge''"]
  by (simp add: udev_world_def driver_world_def nothing_exists_def DRIVER_DIR_def)

section \<open>The attribute accessor\<close>

lemma write_file_unfold:
  "write_file path value w =
     (if \<not> access_ok w path W_OK
      then (False, w\<lparr>trace := trace w @ [Access path W_OK],
                     printed := printed w @ [(Cerr, ''Error: Permission denied. Run with sudo.\<newline>'')]\<rparr>)
      else if \<not> can_open_out w path
      then (False, w\<lparr>trace := trace w @ [Access path W_OK, OpenOut path],
                     printed := printed w @ [(Cerr, ''Error: Could not write to '' @ path @ ''\<newline>'')]\<rparr>)
      else (True, w\<lparr>trace := trace w @ [Access path W_OK, OpenOut path],
                    file_data := (file_data w)(path := Some value)\<rparr>))"
  by (simp add: write_file_def check_permissions_def sys_access_def open_out_def print_def Let_def)

lemma read_file_unfold:
  "read_file path value w =
     (if \<not> can_open_in w path
      then ((False, value), w\<lparr>trace := trace w @ [OpenIn path],
                     printed := printed w @ [(Cerr, ''Error: Could not open '' @ path @ ''\<newline>'')]\<rparr>)
      else ((True, getline (file_data w path)), w\<lparr>trace := trace w @ [OpenIn path]\<rparr>))"
  by (simp add: read_file_def open_in_def print_def Let_def)

lemma write_file_fst: "fst (write_file path value w) = (access_ok w path W_OK \<and> can_open_out w path)"
  by (simp add: write_file_unfold)

lemma write_file_data:
  "file_data (snd (write_file path value w)) =
     (if access_ok w path W_OK \<and> can_open_out w path
      then (file_data w)(path := Some value) else file_data w)"
  by (simp add: write_file_unfold)

text \<open>
  C10. For every path, \<open>read_file\<close> returns success whenever the file opens; the value it
  hands back is the first line, which is the empty string when the file is empty and also
  when the line cannot be read. Nothing is printed in either case: the world after the
  call differs from the one before only by the \<open>OpenIn\<close> event.
\<close>

theorem read_file_open_never_fails:
  assumes "can_open_in w path"
  shows "read_file path value w =
           ((True, getline (file_data w path)), w\<lparr>trace := trace w @ [OpenIn path]\<rparr>) \<and>
         (file_data w path = Some [] \<or> file_data w path = None \<longrightarrow>
            snd (fst (read_file path value w)) = [])"
  using assms by (auto simp: read_file_unfold getline_def)

theorem read_file_open_never_fails_witness:
  "read_file FAN_PATH [] (plain_files\<lparr>file_data := (\<lambda>p. Some [])\<rparr>) =
     ((True, []), plain_files\<lparr>file_data := (\<lambda>p. Some []), trace := [OpenIn FAN_PATH]\<rparr>) \<and>
   read_file FAN_PATH [] (plain_files\<lparr>file_data := (\<lambda>p. None)\<rparr>) =
     ((True, []), plain_files\<lparr>file_data := (\<lambda>p. None), trace := [OpenIn FAN_PATH]\<rparr>)"
  using read_file_open_never_fails [of "plain_files\<lparr>file_data := (\<lambda>p. Some [])\<rparr>" FAN_PATH "[]"]
        read_file_open_never_fails [of "plain_files\<lparr>file_data := (\<lambda>p. None)\<rparr>" FAN_PATH "[]"]
  by (simp add: plain_files_def getline_def)

section \<open>The boolean-like features\<close>

lemma execute_set_arg:
  "execute g PowerCommand (name # ''set'' # value # rest) w = set_power value w"
  "execute g KeyboardCommand (name # ''set'' # value # rest) w = set_keyboard_backlight value w"
  "execute g PerformanceCommand (name # ''set'' # value # rest) w = set_performance_mode value w"
  "execute g RecordingCommand (name # ''set'' # value # rest) w = set_recording_status g value w"
  "execute g StartOnLidOpenCommand (name # ''set'' # value # rest) w =
     StartOnLidOpenCommand_set_status g value w"
  "execute g UsbChargeCommand (name # ''set'' # value # rest) w =
     UsbChargeCommand_set_status g value w"
  by (simp_all add: PowerCommand_execute_def KeyboardCommand_execute_def
        PerformanceCommand_execute_def RecordingCommand_execute_def
        StartOnLidOpenCommand_execute_def UsbChargeCommand_execute_def)

lemma token_sets:
  "(value = ''0'' \<or> value = ''off'' \<or> value = ''false'' \<or> value = ''no'') = (value \<in> set off_tokens)"
  "(value = ''1'' \<or> value = ''on'' \<or> value = ''true'' \<or> value = ''yes'') = (value \<in> set on_tokens)"
  by (simp_all add: off_tokens_def on_tokens_def)

lemma set_recording_status_boolean_set:
  "set_recording_status g value w =
     boolean_set ''Set recording permission'' (ALLOW_RECORDING_PATH g) value w"
  unfolding set_recording_status_def token_sets boolean_set_def
  by (simp add: case_prod_beta Let_def write_file_fst)

lemma StartOnLidOpenCommand_set_status_boolean_set:
  "StartOnLidOpenCommand_set_status g value w =
     boolean_set ''Set start on lid open'' (START_ON_LID_OPEN_PATH g) value w"
  unfolding StartOnLidOpenCommand_set_status_def token_sets boolean_set_def
  by (simp add: case_prod_beta Let_def write_file_fst)

lemma UsbChargeCommand_set_status_boolean_set:
  "UsbChargeCommand_set_status g value w =
     boolean_set ''Set USB charge'' (USB_CHARGE_PATH g) value w"
  unfolding UsbChargeCommand_set_status_def token_sets boolean_set_def
  by (simp add: case_prod_beta Let_def write_file_fst)

lemma boolean_set_fst:
  "fst (boolean_set label path value w) =
     (value \<in> set (off_tokens @ on_tokens) \<and> access_ok w path W_OK \<and> can_open_out w path)"
  by (simp add: boolean_set_def)

lemma boolean_set_data:
  "file_data (snd (boolean_set label path value w)) =
     (if access_ok w path W_OK \<and> can_open_out w path
      then (if value \<in> set off_tokens then (file_data w)(path := Some ''0'')
            else if value \<in> set on_tokens then (file_data w)(path := Some ''1'')
            else file_data w)
      else file_data w)"
  by (simp add: boolean_set_def write_file_data print_def)

lemma boolean_set_invalid:
  "value \<notin> set (off_tokens @ on_tokens) \<Longrightarrow>
     trace (snd (boolean_set label path value w)) = trace w"
  by (simp add: boolean_set_def print_def)

text \<open>
  C3. For \<open>record\<close>, \<open>start-on-lid-open\<close> and \<open>usb-charge\<close>: \<open>set\<close> with one of the tokens
  \<open>0\<close>, \<open>off\<close>, \<open>false\<close>, \<open>no\<close> stores the string \<open>0\<close> in the feature's control file, with one
  of \<open>1\<close>, \<open>on\<close>, \<open>true\<close>, \<open>yes\<close> it stores \<open>1\<close> (the file being writable); with any other
  token it fails, the files are as before and no system call has been made.
\<close>

theorem boolean_token_normalisation:
  assumes "cmd \<in> {RecordingCommand, StartOnLidOpenCommand, UsbChargeCommand}"
  shows "(tok \<in> set off_tokens \<and> access_ok w (control_path g cmd) W_OK \<and>
          can_open_out w (control_path g cmd) \<longrightarrow>
            fst (execute g cmd [name, ''set'', tok] w) \<and>
            file_data (snd (execute g cmd [name, ''set'', tok] w)) =
              (file_data w)(control_path g cmd := Some ''0'')) \<and>
         (tok \<in> set on_tokens \<and> access_ok w (control_path g cmd) W_OK \<and>
          can_open_out w (control_path g cmd) \<longrightarrow>
            fst (execute g cmd [name, ''set'', tok] w) \<and>
            file_data (snd (execute g cmd [name, ''set'', tok] w)) =
              (file_data w)(control_path g cmd := Some ''1'')) \<and>
         (tok \<notin> set off_tokens \<and> tok \<notin> set on_tokens \<longrightarrow>
            \<not> fst (execute g cmd [name, ''set'', tok] w) \<and>
            file_data (snd (execute g cmd [name, ''set'', tok] w)) = file_data w \<and>
            trace (snd (execute g cmd [name, ''set'', tok] w)) = trace w)"
proof -
  have disjoint: "tok \<in> set on_tokens \<Longrightarrow> tok \<notin> set off_tokens"
    by (auto simp: off_tokens_def on_tokens_def)
  have "\<exists>label.
      execute g cmd [name, ''set'', tok] w = boolean_set label (control_path g cmd) tok w"
    using assms
    by (auto simp: execute_set_arg set_recording_status_boolean_set
          StartOnLidOpenCommand_set_status_boolean_set UsbChargeCommand_set_status_boolean_set
          simp del: execute.simps)
  then obtain label where
    "execute g cmd [name, ''set'', tok] w = boolean_set label (control_path g cmd) tok w"
    by blast
  then show ?thesis
    using disjoint by (simp add: boolean_set_fst boolean_set_data boolean_set_invalid)
qed

theorem boolean_token_normalisation_witness:
  "fst (execute acpi_globals UsbChargeCommand [''usb-charge'', ''set'', ''yes''] plain_files) \<and>
   file_data (snd (execute acpi_globals UsbChargeCommand [''usb-charge'', ''set'', ''yes'']
                     plain_files)) ''/sys/bus/acpi/devices/SCAI:00/usb_charge'' = Some ''1'' \<and>
   fst (execute acpi_globals RecordingCommand [''record'', ''set'', ''off''] plain_files) \<and>
   file_data (snd (execute acpi_globals RecordingCommand [''record'', ''set'', ''off'']
                     plain_files)) ''/sys/bus/acpi/devices/SCAI:00/allow_recording'' = Some ''0'' \<and>
   \<not> fst (execute acpi_globals StartOnLidOpenCommand [''start-on-lid-open'', ''set'', ''maybe'']
            plain_files)"
  using boolean_token_normalisation [where cmd = UsbChargeCommand and tok = "''yes''"
          and w = plain_files and g = acpi_globals and name = "''usb-charge''"]
        boolean_token_normalisation [where cmd = RecordingCommand and tok = "''off''"
          and w = plain_files and g = acpi_globals and name = "''record''"]
        boolean_token_normalisation [where cmd = StartOnLidOpenCommand and tok = "''maybe''"
          and w = plain_files and g = acpi_globals and name = "''start-on-lid-open''"]
  by (simp add: off_tokens_def on_tokens_def plain_files_def acpi_globals_def
        del: execute.simps)

section \<open>Decimal numerals: \<open>std::stoi\<close> and \<open>std::to_string\<close>\<close>

lemma digit_char_cases:
  assumes "d < 10"
  shows "isdigit (''0123456789'' ! d) \<and> digit_val (''0123456789'' ! d) = int d"
proof -
  from assms have "d = 0 \<or> d = 1 \<or> d = 2 \<or> d = 3 \<or> d = 4 \<or> d = 5 \<or> d = 6 \<or> d = 7 \<or> d = 8 \<or> d = 9"
    by arith
  then show ?thesis
    by (elim disjE) (simp_all add: isdigit_def digit_val_def)
qed

lemma digits_nonempty: "digits n \<noteq> []"
  by (subst digits.simps) simp

lemma digits_all_isdigit: "c \<in> set (digits n) \<Longrightarrow> isdigit c"
proof (induction n arbitrary: c rule: digits.induct)
  case (1 n)
  show ?case
  proof (cases "n < 10")
    case True
    then have "digits n = [''0123456789'' ! n]" by (subst digits.simps) simp
    then show ?thesis using "1.prems" digit_char_cases [OF True] by simp
  next
    case False
    then have eq: "digits n = digits (n div 10) @ [''0123456789'' ! (n mod 10)]"
      by (subst digits.simps) simp
    have "n mod 10 < 10" by simp
    then have "isdigit (''0123456789'' ! (n mod 10))" using digit_char_cases by blast
    then show ?thesis using "1.prems" "1.IH" [OF False] eq by auto
  qed
qed

lemma digits_val_snoc: "digits_val (ds @ [c]) = 10 * digits_val ds + digit_val c"
  by (simp add: digits_val_def)

lemma digits_val_digits: "digits_val (digits n) = int n"
proof (induction n rule: digits.induct)
  case (1 n)
  show ?case
  proof (cases "n < 10")
    case True
    then have "digits n = [''0123456789'' ! n]" by (subst digits.simps) simp
    then show ?thesis using digit_char_cases [OF True] by (simp add: digits_val_def)
  next
    case False
    then have eq: "digits n = digits (n div 10) @ [''0123456789'' ! (n mod 10)]"
      by (subst digits.simps) simp
    have "n mod 10 < 10" by simp
    then have "digit_val (''0123456789'' ! (n mod 10)) = int (n mod 10)"
      using digit_char_cases by blast
    then have "digits_val (digits n) = 10 * int (n div 10) + int (n mod 10)"
      using "1.IH" [OF False] eq by (simp add: digits_val_snoc)
    also have "\<dots> = int n" by presburger
    finally show ?thesis .
  qed
qed

lemma isdigit_not_special:
  "isdigit c \<Longrightarrow> \<not> isspace c \<and> c \<noteq> CHR ''-'' \<and> c \<noteq> CHR ''+'' \<and> c \<noteq> CHR 0x0A"
  by (auto simp: isdigit_def isspace_def)

lemma stoi_digits:
  "stoi (digits n) = (if int n \<le> INT_MAX then Inr (int n) else Inl out_of_range)"
proof -
  obtain c cs where cs: "digits n = c # cs"
    using digits_nonempty [of n] by (cases "digits n") auto
  have all: "\<forall>x \<in> set (c # cs). isdigit x" using digits_all_isdigit [of _ n] cs by metis
  then have c: "\<not> isspace c" "c \<noteq> CHR ''-''" "c \<noteq> CHR ''+''"
    using isdigit_not_special by auto
  have tw: "takeWhile isdigit (c # cs) = c # cs"
    using all by (simp add: takeWhile_eq_all_conv del: takeWhile.simps)
  have dv: "digits_val (c # cs) = int n" using digits_val_digits [of n] cs by simp
  have "int n \<ge> INT_MIN" by (simp add: INT_MIN_def)
  then show ?thesis
    unfolding cs stoi_def using c
    by (simp add: Let_def tw dv del: takeWhile.simps)
qed

lemma stoi_minus_digits:
  "stoi (CHR ''-'' # digits n) = (if INT_MIN \<le> - int n then Inr (- int n) else Inl out_of_range)"
proof -
  obtain c cs where cs: "digits n = c # cs"
    using digits_nonempty [of n] by (cases "digits n") auto
  have all: "\<forall>x \<in> set (c # cs). isdigit x" using digits_all_isdigit [of _ n] cs by metis
  have tw: "takeWhile isdigit (c # cs) = c # cs"
    using all by (simp add: takeWhile_eq_all_conv del: takeWhile.simps)
  have dv: "digits_val (c # cs) = int n" using digits_val_digits [of n] cs by simp
  have sp: "\<not> isspace CHR ''-''" by (simp add: isspace_def)
  have "- int n \<le> INT_MAX" by (simp add: INT_MAX_def)
  then show ?thesis
    unfolding cs stoi_def using sp
    by (simp add: Let_def tw dv del: takeWhile.simps)
qed

lemma stoi_to_string:
  "stoi (to_string v) = (if INT_MIN \<le> v \<and> v \<le> INT_MAX then Inr v else Inl out_of_range)"
proof (cases "v < 0")
  case True
  then have "to_string v = CHR ''-'' # digits (nat (- v))" by (simp add: to_string_def)
  then show ?thesis using True stoi_minus_digits [of "nat (- v)"]
    by (simp add: INT_MAX_def)
next
  case False
  then have "to_string v = digits (nat v)" by (simp add: to_string_def)
  then show ?thesis using False stoi_digits [of "nat v"]
    by (simp add: INT_MIN_def)
qed

lemma getline_to_string: "0 \<le> v \<Longrightarrow> getline (Some (to_string v)) = to_string v"
proof -
  assume "0 \<le> v"
  then have eq: "to_string v = digits (nat v)" by (simp add: to_string_def)
  have "\<forall>c \<in> set (digits (nat v)). c \<noteq> CHR 0x0A"
    using digits_all_isdigit isdigit_not_special by blast
  then show ?thesis
    by (simp add: getline_def eq takeWhile_eq_all_conv)
qed

lemma stoi_Inr_shape:
  assumes "stoi s = Inr v"
  shows "\<exists>ws sg ds rest. s = ws @ sg @ ds @ rest \<and> (\<forall>c \<in> set ws. isspace c) \<and>
           (sg = [] \<or> sg = ''+'' \<or> sg = ''-'') \<and> ds \<noteq> [] \<and> (\<forall>c \<in> set ds. isdigit c) \<and>
           (rest = [] \<or> \<not> isdigit (hd rest)) \<and>
           v = (if sg = ''-'' then - digits_val ds else digits_val ds) \<and>
           INT_MIN \<le> v \<and> v \<le> INT_MAX"
proof -
  define s1 where "s1 = dropWhile isspace s"
  define sg where "sg = (if s1 \<noteq> [] \<and> (hd s1 = CHR ''-'' \<or> hd s1 = CHR ''+'') then [hd s1] else [])"
  define s2 where "s2 = (if s1 \<noteq> [] \<and> (hd s1 = CHR ''-'' \<or> hd s1 = CHR ''+'') then tl s1 else s1)"
  define ds where "ds = takeWhile isdigit s2"
  have a: "s = takeWhile isspace s @ s1" by (simp add: s1_def)
  have b: "s1 = sg @ s2" by (simp add: sg_def s2_def)
  have c: "s2 = ds @ dropWhile isdigit s2" by (simp add: ds_def)
  have split: "s = takeWhile isspace s @ sg @ ds @ dropWhile isdigit s2"
    using a b c by metis
  have ws: "\<forall>c \<in> set (takeWhile isspace s). isspace c" by (metis set_takeWhileD)
  have dg: "\<forall>c \<in> set ds. isdigit c" unfolding ds_def by (metis set_takeWhileD)
  have sgc: "sg = [] \<or> sg = ''+'' \<or> sg = ''-''" by (auto simp: sg_def)
  have neg: "(s1 \<noteq> [] \<and> hd s1 = CHR ''-'') = (sg = ''-'')" by (auto simp: sg_def)
  have st: "stoi s = (if ds = [] then Inl invalid_argument
             else let v = (if sg = ''-'' then - digits_val ds else digits_val ds)
                  in if v < INT_MIN \<or> INT_MAX < v then Inl out_of_range else Inr v)"
    unfolding stoi_def Let_def neg [symmetric] ds_def s2_def s1_def by simp
  from assms st have ne: "ds \<noteq> []" by (auto split: if_splits)
  from assms st ne have v: "v = (if sg = ''-'' then - digits_val ds else digits_val ds)"
    "INT_MIN \<le> v" "v \<le> INT_MAX"
    by (auto simp: Let_def split: if_splits)
  have mx: "dropWhile isdigit s2 = [] \<or> \<not> isdigit (hd (dropWhile isdigit s2))"
    using hd_dropWhile by blast
  show ?thesis using split ws sgc ne dg mx v by blast
qed

lemma stoi_examples:
  "stoi ''85'' = Inr 85" "stoi ''085'' = Inr 85" "stoi ''+85'' = Inr 85"
  "stoi ''85abc'' = Inr 85" "stoi ''101'' = Inr 101" "stoi ''abc'' = Inl invalid_argument"
  by (simp_all add: stoi_def isspace_def isdigit_def digits_val_def digit_val_def
        INT_MIN_def INT_MAX_def)

lemma to_string_examples:
  "to_string 0 = ''0''" "to_string 3 = ''3''" "to_string 4 = ''4''"
  "to_string (- 1) = ''-1''" "to_string 85 = ''85''"
  by (simp_all add: to_string_def digits.simps)

section \<open>The numeric features: \<open>power\<close> and \<open>kbd\<close>\<close>

lemma set_power_unfold:
  "set_power arg w =
     (case stoi arg of
        Inl e \<Rightarrow> (False, print Cerr (''Error: Invalid value '' @ [CHR 0x27] @ arg @ [CHR 0x27] @ ''\<newline>'') w)
      | Inr v \<Rightarrow>
          if v < 0 \<or> 100 < v
          then (False, print Cerr ''Error: Value must be between 0 and 100\<newline>'' w)
          else if \<not> (access_ok w POWER_PATH W_OK \<and> can_open_out w POWER_PATH)
          then (False, snd (write_file POWER_PATH (to_string v) w))
          else (True, print Cout (''Set charge threshold to '' @ to_string v @ ''%\<newline>'')
                        (w\<lparr>trace := trace w @ [Access POWER_PATH W_OK, OpenOut POWER_PATH],
                           file_data := (file_data w)(POWER_PATH := Some (to_string v))\<rparr>)))"
  by (simp add: set_power_def write_file_unfold Let_def split: sum.splits)

lemma set_keyboard_backlight_unfold:
  "set_keyboard_backlight arg w =
     (case stoi arg of
        Inl e \<Rightarrow> (False, print Cerr (''Error: Invalid value '' @ [CHR 0x27] @ arg @ [CHR 0x27] @ ''\<newline>'') w)
      | Inr v \<Rightarrow>
          if v < 0 \<or> 3 < v
          then (False, print Cerr ''Error: Value must be between 0 and 3\<newline>'' w)
          else if \<not> (access_ok w KBD_BACKLIGHT_PATH W_OK \<and> can_open_out w KBD_BACKLIGHT_PATH)
          then (False, snd (write_file KBD_BACKLIGHT_PATH (to_string v) w))
          else (True, print Cout (''Set keyboard backlight level to '' @ to_string v @ ''\<newline>'')
                        (w\<lparr>trace := trace w @ [Access KBD_BACKLIGHT_PATH W_OK, OpenOut KBD_BACKLIGHT_PATH],
                           file_data := (file_data w)(KBD_BACKLIGHT_PATH := Some (to_string v))\<rparr>)))"
  by (simp add: set_keyboard_backlight_def write_file_unfold Let_def split: sum.splits)

text \<open>
  C4, as the claim states it, fails: \<open>85abc\<close> is not a numeric representation of an
  integer, yet \<open>power set 85abc\<close> succeeds and stores \<open>85\<close>.
\<close>

theorem power_set_accepts_trailing_text:
  "\<not> integer_numeral ''85abc'' \<and>
   fst (set_power ''85abc'' plain_files) \<and>
   file_data (snd (set_power ''85abc'' plain_files)) POWER_PATH = Some ''85''"
  by (simp add: set_power_unfold stoi_examples to_string_examples integer_numeral_def
        isdigit_def plain_files_def print_def)

text \<open>
  C4, amended. For every argument string, \<open>power set\<close> succeeds only when the string
  consists of white space (possibly none), an optional sign, a non-empty run of decimal
  digits that no further digit follows, and any text after it, where the signed value \<open>v\<close>
  of the digits is what \<open>std::stoi\<close> returns and \<open>0 \<le> v \<le> 100\<close>. When \<open>std::stoi\<close> throws
  or returns a value outside that range, \<open>power set\<close> fails, the files are as before and
  no system call has been made.
\<close>

theorem power_set_leading_integer:
  "(fst (set_power arg w) \<longrightarrow>
      (\<exists>ws sg ds rest v.
          arg = ws @ sg @ ds @ rest \<and> (\<forall>c \<in> set ws. isspace c) \<and>
          (sg = [] \<or> sg = ''+'' \<or> sg = ''-'') \<and> ds \<noteq> [] \<and> (\<forall>c \<in> set ds. isdigit c) \<and>
          (rest = [] \<or> \<not> isdigit (hd rest)) \<and>
          v = (if sg = ''-'' then - digits_val ds else digits_val ds) \<and>
          stoi arg = Inr v \<and> 0 \<le> v \<and> v \<le> 100)) \<and>
   (\<not> (\<exists>v. stoi arg = Inr v \<and> 0 \<le> v \<and> v \<le> 100) \<longrightarrow>
      \<not> fst (set_power arg w) \<and> file_data (snd (set_power arg w)) = file_data w \<and>
      trace (snd (set_power arg w)) = trace w)"
proof (rule conjI)
  show "fst (set_power arg w) \<longrightarrow>
      (\<exists>ws sg ds rest v.
          arg = ws @ sg @ ds @ rest \<and> (\<forall>c \<in> set ws. isspace c) \<and>
          (sg = [] \<or> sg = ''+'' \<or> sg = ''-'') \<and> ds \<noteq> [] \<and> (\<forall>c \<in> set ds. isdigit c) \<and>
          (rest = [] \<or> \<not> isdigit (hd rest)) \<and>
          v = (if sg = ''-'' then - digits_val ds else digits_val ds) \<and>
          stoi arg = Inr v \<and> 0 \<le> v \<and> v \<le> 100)"
  proof
    assume ok: "fst (set_power arg w)"
    then obtain v where v: "stoi arg = Inr v" "0 \<le> v" "v \<le> 100"
      by (auto simp: set_power_unfold split: sum.splits if_splits)
    from stoi_Inr_shape [OF v(1)] v
    show "\<exists>ws sg ds rest v.
          arg = ws @ sg @ ds @ rest \<and> (\<forall>c \<in> set ws. isspace c) \<and>
          (sg = [] \<or> sg = ''+'' \<or> sg = ''-'') \<and> ds \<noteq> [] \<and> (\<forall>c \<in> set ds. isdigit c) \<and>
          (rest = [] \<or> \<not> isdigit (hd rest)) \<and>
          v = (if sg = ''-'' then - digits_val ds else digits_val ds) \<and>
          stoi arg = Inr v \<and> 0 \<le> v \<and> v \<le> 100"
      by blast
  qed
next
  show "\<not> (\<exists>v. stoi arg = Inr v \<and> 0 \<le> v \<and> v \<le> 100) \<longrightarrow>
      \<not> fst (set_power arg w) \<and> file_data (snd (set_power arg w)) = file_data w \<and>
      trace (snd (set_power arg w)) = trace w"
  proof
    assume "\<not> (\<exists>v. stoi arg = Inr v \<and> 0 \<le> v \<and> v \<le> 100)"
    then have "(\<exists>e. stoi arg = Inl e) \<or> (\<exists>v. stoi arg = Inr v \<and> (v < 0 \<or> 100 < v))"
      by (cases "stoi arg") auto
    then show "\<not> fst (set_power arg w) \<and> file_data (snd (set_power arg w)) = file_data w \<and>
        trace (snd (set_power arg w)) = trace w"
      by (auto simp: set_power_unfold print_def)
  qed
qed

theorem power_set_leading_integer_witness:
  "fst (set_power ''85abc'' plain_files) \<and>
   \<not> fst (set_power ''abc'' plain_files) \<and>
   file_data (snd (set_power ''abc'' plain_files)) = file_data plain_files \<and>
   \<not> fst (set_power ''101'' plain_files)"
  using power_set_leading_integer [of "''85abc''" plain_files]
        power_set_leading_integer [of "''abc''" plain_files]
        power_set_leading_integer [of "''101''" plain_files]
  by (simp add: set_power_unfold stoi_examples plain_files_def)

text \<open>
  C9. When \<open>power set\<close> accepts an argument, what it stores in the backing file is
  \<open>std::to_string\<close> of the integer \<open>std::stoi\<close> parsed, not the argument: with a writable
  file, \<open>085\<close> and \<open>+85\<close> are both accepted and stored as \<open>85\<close>.
\<close>

theorem power_set_stores_to_string:
  "(fst (set_power arg w) \<longrightarrow>
      (\<exists>v. stoi arg = Inr v \<and>
           file_data (snd (set_power arg w)) = (file_data w)(POWER_PATH := Some (to_string v)))) \<and>
   (access_ok w POWER_PATH W_OK \<and> can_open_out w POWER_PATH \<longrightarrow>
      fst (set_power ''085'' w) \<and> fst (set_power ''+85'' w) \<and>
      file_data (snd (set_power ''085'' w)) POWER_PATH = Some ''85'' \<and>
      file_data (snd (set_power ''+85'' w)) POWER_PATH = Some ''85'')"
proof (rule conjI)
  show "fst (set_power arg w) \<longrightarrow>
      (\<exists>v. stoi arg = Inr v \<and>
           file_data (snd (set_power arg w)) = (file_data w)(POWER_PATH := Some (to_string v)))"
    by (auto simp: set_power_unfold print_def split: sum.splits if_splits)
next
  have a: "stoi ''085'' = Inr 85"
    by (simp add: stoi_def isspace_def isdigit_def digits_val_def digit_val_def
          INT_MIN_def INT_MAX_def)
  have b: "stoi ''+85'' = Inr 85"
    by (simp add: stoi_def isspace_def isdigit_def digits_val_def digit_val_def
          INT_MIN_def INT_MAX_def)
  have c: "to_string 85 = ''85''" by (simp add: to_string_def digits.simps)
  show "access_ok w POWER_PATH W_OK \<and> can_open_out w POWER_PATH \<longrightarrow>
      fst (set_power ''085'' w) \<and> fst (set_power ''+85'' w) \<and>
      file_data (snd (set_power ''085'' w)) POWER_PATH = Some ''85'' \<and>
      file_data (snd (set_power ''+85'' w)) POWER_PATH = Some ''85''"
    by (simp add: set_power_unfold a b c print_def)
qed

theorem power_set_stores_to_string_witness:
  "fst (set_power ''085'' plain_files) \<and>
   file_data (snd (set_power ''085'' plain_files)) POWER_PATH = Some ''85'' \<and>
   file_data (snd (set_power ''+85'' plain_files)) POWER_PATH = Some ''85''"
  using power_set_stores_to_string [of "''085''" plain_files]
  by (simp add: plain_files_def)

text \<open>
  C7. For every integer \<open>v\<close>, written in decimal as \<open>std::to_string\<close> writes it,
  \<open>kbd set v\<close> succeeds if and only if \<open>0 \<le> v \<le> 3\<close> and the write succeeds, and then the
  file holds \<open>v\<close>; for \<open>v\<close> outside the range the files are as before and no system call
  has been made. The same equivalence holds for every argument that \<open>std::stoi\<close> reads as
  \<open>v\<close>. At \<open>v = 0\<close> and \<open>v = 3\<close> the command is accepted, at \<open>v = -1\<close> and \<open>v = 4\<close> it is
  rejected.
\<close>

theorem kbd_set_range:
  "(fst (set_keyboard_backlight (to_string v) w) \<longleftrightarrow>
      0 \<le> v \<and> v \<le> 3 \<and>
      access_ok w KBD_BACKLIGHT_PATH W_OK \<and> can_open_out w KBD_BACKLIGHT_PATH) \<and>
   (fst (set_keyboard_backlight (to_string v) w) \<longrightarrow>
      file_data (snd (set_keyboard_backlight (to_string v) w)) =
        (file_data w)(KBD_BACKLIGHT_PATH := Some (to_string v))) \<and>
   (v < 0 \<or> 3 < v \<longrightarrow>
      file_data (snd (set_keyboard_backlight (to_string v) w)) = file_data w \<and>
      trace (snd (set_keyboard_backlight (to_string v) w)) = trace w) \<and>
   (stoi arg = Inr v \<longrightarrow>
      (fst (set_keyboard_backlight arg w) \<longleftrightarrow>
         0 \<le> v \<and> v \<le> 3 \<and>
         access_ok w KBD_BACKLIGHT_PATH W_OK \<and> can_open_out w KBD_BACKLIGHT_PATH))"
proof -
  have "stoi (to_string v) = Inr v \<or> (stoi (to_string v) = Inl out_of_range \<and> (v < 0 \<or> 3 < v))"
    by (auto simp: stoi_to_string INT_MIN_def INT_MAX_def)
  then show ?thesis
    by (auto simp: set_keyboard_backlight_unfold print_def)
qed

theorem kbd_set_range_witness:
  "fst (set_keyboard_backlight ''0'' plain_files) \<and>
   fst (set_keyboard_backlight ''3'' plain_files) \<and>
   \<not> fst (set_keyboard_backlight ''-1'' plain_files) \<and>
   \<not> fst (set_keyboard_backlight ''4'' plain_files) \<and>
   trace (snd (set_keyboard_backlight ''-1'' plain_files)) = [] \<and>
   trace (snd (set_keyboard_backlight ''4'' plain_files)) = []"
  using kbd_set_range [of 0 plain_files] kbd_set_range [of 3 plain_files]
        kbd_set_range [of "- 1" plain_files] kbd_set_range [of 4 plain_files]
  by (simp add: to_string_examples plain_files_def)

text \<open>
  C8. For every integer \<open>v\<close> in \<open>[0, 100]\<close> and every world in which the threshold file can
  be written and read: \<open>power set v\<close> succeeds and leaves \<open>v\<close> in the file, and the
  \<open>power read\<close> that follows succeeds and prints the stored value followed by \<open>%\<close>.
\<close>

theorem power_set_then_read:
  assumes "0 \<le> v" and "v \<le> 100"
    and "access_ok w POWER_PATH W_OK" and "can_open_out w POWER_PATH"
    and "can_open_in w POWER_PATH"
  shows "fst (PowerCommand_execute [''power'', ''set'', to_string v] w) \<and>
         file_data (snd (PowerCommand_execute [''power'', ''set'', to_string v] w)) POWER_PATH =
           Some (to_string v) \<and>
         fst (PowerCommand_execute [''power'', ''read'']
                (snd (PowerCommand_execute [''power'', ''set'', to_string v] w))) \<and>
         printed (snd (PowerCommand_execute [''power'', ''read'']
                         (snd (PowerCommand_execute [''power'', ''set'', to_string v] w)))) =
           printed w @
           [(Cout, ''Set charge threshold to '' @ to_string v @ ''%\<newline>''),
            (Cout, ''Current charge threshold: '' @ to_string v @ ''%\<newline>'')]"
proof -
  have st: "stoi (to_string v) = Inr v"
    using assms(1,2) by (simp add: stoi_to_string INT_MIN_def INT_MAX_def)
  have gl: "getline (Some (to_string v)) = to_string v"
    using assms(1) by (rule getline_to_string)
  have set_eq: "PowerCommand_execute [''power'', ''set'', to_string v] w =
      (True, print Cout (''Set charge threshold to '' @ to_string v @ ''%\<newline>'')
               (w\<lparr>trace := trace w @ [Access POWER_PATH W_OK, OpenOut POWER_PATH],
                  file_data := (file_data w)(POWER_PATH := Some (to_string v))\<rparr>))"
    using assms by (simp add: PowerCommand_execute_def set_power_unfold st)
  show ?thesis
    unfolding set_eq using assms(5)
    by (simp add: PowerCommand_execute_def read_power_def read_file_unfold print_def gl)
qed

theorem power_set_then_read_witness:
  "fst (PowerCommand_execute [''power'', ''set'', ''85''] plain_files) \<and>
   printed (snd (PowerCommand_execute [''power'', ''read'']
                   (snd (PowerCommand_execute [''power'', ''set'', ''85''] plain_files)))) =
     [(Cout, ''Set charge threshold to 85%\<newline>''),
      (Cout, ''Current charge threshold: 85%\<newline>'')]"
  using power_set_then_read [of 85 plain_files]
  by (simp add: to_string_examples plain_files_def)

section \<open>The performance profile\<close>

lemma string_find_None_iff: "string_find hay needle = None \<longleftrightarrow> \<not> sublist needle hay"
  by (induction hay) (auto simp: sublist_Cons_right)

lemma set_performance_mode_unfold:
  "set_performance_mode mode w =
     (if \<not> can_open_in w PLATFORM_PROFILE_CHOICES_PATH
      then (False, snd (read_file PLATFORM_PROFILE_CHOICES_PATH [] w))
      else if \<not> sublist mode (getline (file_data w PLATFORM_PROFILE_CHOICES_PATH))
      then (False, print Cerr (''Error: Invalid performance mode '' @ [CHR 0x27] @ mode
                                @ [CHR 0x27] @ ''\<newline>'')
                     (w\<lparr>trace := trace w @ [OpenIn PLATFORM_PROFILE_CHOICES_PATH]\<rparr>))
      else if \<not> (access_ok w PLATFORM_PROFILE_PATH W_OK \<and> can_open_out w PLATFORM_PROFILE_PATH)
      then (False, snd (write_file PLATFORM_PROFILE_PATH mode
                          (w\<lparr>trace := trace w @ [OpenIn PLATFORM_PROFILE_CHOICES_PATH]\<rparr>)))
      else (True, print Cout (''Set performance mode to '' @ mode @ ''\<newline>'')
                    (snd (write_file PLATFORM_PROFILE_PATH mode
                            (w\<lparr>trace := trace w @ [OpenIn PLATFORM_PROFILE_CHOICES_PATH]\<rparr>)))))"
  by (simp add: set_performance_mode_def read_file_unfold string_find_None_iff
        case_prod_beta Let_def write_file_fst)

text \<open>
  C5. For every mode string and every content of the choices file (the file opening for
  reading): \<open>perf set mode\<close> succeeds if and only if \<open>mode\<close> is a substring of the first line
  of the choices file, that is of its content up to the first newline, and the write to the
  profile file succeeds; then the profile file holds \<open>mode\<close>. When \<open>mode\<close> is not a substring
  of the first line (also when it occurs on a later line), the command fails, the files are
  as before and no write has been attempted.
\<close>

theorem perf_set_iff_substring:
  assumes "can_open_in w PLATFORM_PROFILE_CHOICES_PATH"
  shows "(fst (set_performance_mode mode w) \<longleftrightarrow>
            sublist mode
              (case file_data w PLATFORM_PROFILE_CHOICES_PATH of
                 None \<Rightarrow> []
               | Some content \<Rightarrow> takeWhile (\<lambda>c. c \<noteq> CHR 0x0A) content) \<and>
            access_ok w PLATFORM_PROFILE_PATH W_OK \<and> can_open_out w PLATFORM_PROFILE_PATH) \<and>
         (fst (set_performance_mode mode w) \<longrightarrow>
            file_data (snd (set_performance_mode mode w)) =
              (file_data w)(PLATFORM_PROFILE_PATH := Some mode)) \<and>
         (\<not> sublist mode
              (case file_data w PLATFORM_PROFILE_CHOICES_PATH of
                 None \<Rightarrow> []
               | Some content \<Rightarrow> takeWhile (\<lambda>c. c \<noteq> CHR 0x0A) content) \<longrightarrow>
            \<not> fst (set_performance_mode mode w) \<and>
            file_data (snd (set_performance_mode mode w)) = file_data w \<and>
            filter is_write_call (trace (snd (set_performance_mode mode w))) =
              filter is_write_call (trace w))"
  using assms
  by (simp add: set_performance_mode_unfold getline_def write_file_unfold print_def
        is_write_call_def)

theorem perf_set_iff_substring_witness:
  "fst (set_performance_mode ''balanced'' two_line_choices) \<and>
   \<not> fst (set_performance_mode ''performance'' two_line_choices) \<and>
   file_data (snd (set_performance_mode ''performance'' two_line_choices)) =
     file_data two_line_choices \<and>
   fst (set_performance_mode ''performance'' plain_files) \<and>
   \<not> fst (set_performance_mode ''turbo'' plain_files)"
proof -
  have one: "file_data plain_files PLATFORM_PROFILE_CHOICES_PATH =
      Some ''low-power balanced performance\<newline>''"
    by (simp add: plain_files_def PLATFORM_PROFILE_CHOICES_PATH_def POWER_PATH_def)
  have two: "file_data two_line_choices PLATFORM_PROFILE_CHOICES_PATH =
      Some ''low-power balanced\<newline>performance\<newline>''"
    by (simp add: two_line_choices_def)
  have yes: "sublist ''balanced'' ''low-power balanced''"
    "sublist ''performance'' ''low-power balanced performance''"
    using string_find_None_iff [of "''low-power balanced''" "''balanced''"]
          string_find_None_iff [of "''low-power balanced performance''" "''performance''"]
    by simp_all
  have no: "\<not> sublist ''performance'' ''low-power balanced''"
    "\<not> sublist ''turbo'' ''low-power balanced performance''"
    using string_find_None_iff [of "''low-power balanced''" "''performance''"]
          string_find_None_iff [of "''low-power balanced performance''" "''turbo''"]
    by simp_all
  have io: "can_open_in plain_files PLATFORM_PROFILE_CHOICES_PATH"
    "access_ok plain_files PLATFORM_PROFILE_PATH W_OK"
    "can_open_out plain_files PLATFORM_PROFILE_PATH"
    "can_open_in two_line_choices PLATFORM_PROFILE_CHOICES_PATH"
    "access_ok two_line_choices PLATFORM_PROFILE_PATH W_OK"
    "can_open_out two_line_choices PLATFORM_PROFILE_PATH"
    by (simp_all add: plain_files_def two_line_choices_def)
  show ?thesis
    using perf_set_iff_substring [OF io(4), of "''balanced''"]
          perf_set_iff_substring [OF io(4), of "''performance''"]
          perf_set_iff_substring [OF io(1), of "''performance''"]
          perf_set_iff_substring [OF io(1), of "''turbo''"]
    by (simp add: one two yes no io)
qed

section \<open>Validation precedes the write\<close>













section \<open>The dispatcher\<close>

lemma commands_eq:
  "commands =
     [(''fan'', FanCommand), (''help'', HelpCommand), (''kbd'', KeyboardCommand),
      (''perf'', PerformanceCommand), (''power'', PowerCommand), (''record'', RecordingCommand),
      (''start-on-lid-open'', StartOnLidOpenCommand), (''usb-charge'', UsbChargeCommand)]"
  by (simp add: commands_def)

lemma print_help_eq:
  "print_help w =
     w\<lparr>printed := printed w @
        (Cout, ''Usage: samsung-cli <command> [<args>]\<newline>'' @
               ''CLI tool to control Samsung Galaxy Book features.\<newline>\<newline>'' @
               ''Commands:\<newline>'') #
        map (\<lambda>cmd. (Cout, get_help cmd @ ''\<newline>''))
          [FanCommand, HelpCommand, KeyboardCommand, PerformanceCommand, PowerCommand,
           RecordingCommand, StartOnLidOpenCommand, UsbChargeCommand]\<rparr>"
  unfolding print_help_def commands_eq by (simp add: print_def)

lemma map_of_commands_None:
  "name \<notin> set [''power'', ''fan'', ''perf'', ''record'', ''kbd'', ''start-on-lid-open'',
                 ''usb-charge'', ''help''] \<Longrightarrow> map_of commands name = None"
  unfolding commands_eq by simp

lemma map_of_commands_Some:
  "(name, cmd) \<in> set [(''power'', PowerCommand), (''fan'', FanCommand),
                       (''perf'', PerformanceCommand), (''record'', RecordingCommand),
                       (''kbd'', KeyboardCommand), (''start-on-lid-open'', StartOnLidOpenCommand),
                       (''usb-charge'', UsbChargeCommand), (''help'', HelpCommand)]
   \<Longrightarrow> map_of commands name = Some cmd"
  unfolding commands_eq by auto

text \<open>
  C6. With no command (fewer than two entries in \<open>argv\<close>) \<open>main\<close> prints the help listing
  and returns 1. With a first argument that is none of the eight registered names it prints
  the unknown-command error, then the help listing, and returns 1. With a registered name it
  calls that command's \<open>execute\<close> on \<open>argv\<close> without the program name, so that the command
  name is at index 0, and returns 0 when \<open>execute\<close> returns true and 1 otherwise. The help
  listing is the usage header followed by the help text of each of the eight commands.
\<close>

theorem main_dispatch:
  "(length argv < 2 \<longrightarrow> main g argv w = (1, print_help w)) \<and>
   (2 \<le> length argv \<and>
    argv ! 1 \<notin> set [''power'', ''fan'', ''perf'', ''record'', ''kbd'', ''start-on-lid-open'',
                      ''usb-charge'', ''help''] \<longrightarrow>
      main g argv w =
        (1, print_help (print Cerr (''Error: Unknown command '' @ [CHR 0x27] @ argv ! 1
                                     @ [CHR 0x27] @ ''\<newline>'') w))) \<and>
   (2 \<le> length argv \<and>
    (argv ! 1, cmd) \<in> set [(''power'', PowerCommand), (''fan'', FanCommand),
                            (''perf'', PerformanceCommand), (''record'', RecordingCommand),
                            (''kbd'', KeyboardCommand),
                            (''start-on-lid-open'', StartOnLidOpenCommand),
                            (''usb-charge'', UsbChargeCommand), (''help'', HelpCommand)] \<longrightarrow>
      main g argv w =
        (if fst (execute g cmd (tl argv) w) then 0 else 1, snd (execute g cmd (tl argv) w)) \<and>
      tl argv ! 0 = argv ! 1) \<and>
   printed (print_help w) =
     printed w @
     (Cout, ''Usage: samsung-cli <command> [<args>]\<newline>'' @
            ''CLI tool to control Samsung Galaxy Book features.\<newline>\<newline>'' @
            ''Commands:\<newline>'') #
     map (\<lambda>c. (Cout, get_help c @ ''\<newline>''))
       [FanCommand, HelpCommand, KeyboardCommand, PerformanceCommand, PowerCommand,
        RecordingCommand, StartOnLidOpenCommand, UsbChargeCommand]"
proof (intro conjI impI)
  assume "length argv < 2"
  then show "main g argv w = (1, print_help w)"
    by (simp add: main_def HelpCommand_execute_def)
next
  assume a: "2 \<le> length argv \<and>
    argv ! 1 \<notin> set [''power'', ''fan'', ''perf'', ''record'', ''kbd'', ''start-on-lid-open'',
                      ''usb-charge'', ''help'']"
  then have "map_of commands (argv ! 1) = None" using map_of_commands_None by blast
  then show "main g argv w =
        (1, print_help (print Cerr (''Error: Unknown command '' @ [CHR 0x27] @ argv ! 1
                                     @ [CHR 0x27] @ ''\<newline>'') w))"
    using a by (simp add: main_def HelpCommand_execute_def Let_def)
next
  assume a: "2 \<le> length argv \<and>
    (argv ! 1, cmd) \<in> set [(''power'', PowerCommand), (''fan'', FanCommand),
                            (''perf'', PerformanceCommand), (''record'', RecordingCommand),
                            (''kbd'', KeyboardCommand),
                            (''start-on-lid-open'', StartOnLidOpenCommand),
                            (''usb-charge'', UsbChargeCommand), (''help'', HelpCommand)]"
  then have m: "map_of commands (argv ! 1) = Some cmd" using map_of_commands_Some by blast
  show "main g argv w =
        (if fst (execute g cmd (tl argv) w) then 0 else 1, snd (execute g cmd (tl argv) w))"
    using a m by (simp add: main_def Let_def case_prod_beta drop_Suc del: execute.simps)
  from a obtain p c rest where "argv = p # c # rest"
    by (cases argv; cases "tl argv") auto
  then show "tl argv ! 0 = argv ! 1" by simp
next
  show "printed (print_help w) =
     printed w @
     (Cout, ''Usage: samsung-cli <command> [<args>]\<newline>'' @
            ''CLI tool to control Samsung Galaxy Book features.\<newline>\<newline>'' @
            ''Commands:\<newline>'') #
     map (\<lambda>c. (Cout, get_help c @ ''\<newline>''))
       [FanCommand, HelpCommand, KeyboardCommand, PerformanceCommand, PowerCommand,
        RecordingCommand, StartOnLidOpenCommand, UsbChargeCommand]"
    by (subst print_help_eq) simp
qed

theorem main_dispatch_witness:
  "main acpi_globals [''samsung-cli''] plain_files = (1, print_help plain_files) \<and>
   fst (main acpi_globals [''samsung-cli'', ''bogus''] plain_files) = 1 \<and>
   fst (main acpi_globals [''samsung-cli'', ''fan'', ''read''] plain_files) = 0 \<and>
   fst (main acpi_globals [''samsung-cli'', ''fan''] plain_files) = 1"
  using main_dispatch [of "[''samsung-cli'']" acpi_globals plain_files]
        main_dispatch [of "[''samsung-cli'', ''bogus'']" acpi_globals plain_files]
        main_dispatch [of "[''samsung-cli'', ''fan'', ''read'']" acpi_globals plain_files FanCommand]
        main_dispatch [of "[''samsung-cli'', ''fan'']" acpi_globals plain_files FanCommand]
  by (simp add: FanCommand_execute_def read_fan_def read_file_unfold print_def plain_files_def)

end
